theory Spec2Isabelle
  imports Complex_Main "HOL-Library.Log_Nat" "HOL-Library.Multiset"
begin

section \<open>Errors and messages\<close>

text \<open>
  Python exceptions are values. The text of an f-string is kept as the source writes it;
  the numbers it formats are listed after it, in the order of their placeholders.
\<close>

type_synonym message = "string \<times> real list"

datatype error =
    ValueError message
  | ZeroDivisionError
  | NotImplementedError string

section \<open>Configuration (assignment3/config.py)\<close>

text \<open>The class \<open>PrinterSpecs\<close>: the constants that the validation reads.\<close>

definition BED_SIZE :: "real \<times> real" where
  "BED_SIZE = (250, 210)"

definition BED_CENTER :: "real \<times> real" where
  "BED_CENTER = (105, 105)"

definition MAX_Z :: real where
  "MAX_Z = 220"

definition MAX_OVERHANG_ANGLE :: real where
  "MAX_OVERHANG_ANGLE = 45"

text \<open>The class \<open>LampShadeParams\<close>, field by field, and the values its constructor sets.\<close>

record LampShadeParams =
  base_radius :: real
  top_radius :: real
  total_height :: real
  num_points :: int
  profile_type :: string
  layer_height :: real
  line_width :: real
  print_speed :: real
  travel_speed :: real
  flow_multiplier :: real
  nozzle_temp :: int
  bed_temp :: int
  twist_enabled :: bool
  twist_degrees :: real
  twist_type :: string
  wave_enabled :: bool
  wave_amplitude :: real
  wave_frequency :: int
  wave_vertical_freq :: real
  z_increment_per_point :: "real option"

definition default_params :: LampShadeParams where
  "default_params =
     \<lparr>base_radius = 30, top_radius = 25, total_height = 50, num_points = 64,
      profile_type = ''linear'', layer_height = 20 / 100, line_width = 48 / 100,
      print_speed = 1500, travel_speed = 6000, flow_multiplier = 1,
      nozzle_temp = 215, bed_temp = 60,
      twist_enabled = False, twist_degrees = 0, twist_type = ''linear'',
      wave_enabled = False, wave_amplitude = 0, wave_frequency = 6, wave_vertical_freq = 3,
      z_increment_per_point = None\<rparr>"

section \<open>Profile function (assignment3/part1\_geometry.py)\<close>

text \<open>
  \<open>lamp_shade_radius_at_height\<close>, over the real numbers. The division \<open>z / total_height\<close>
  raises \<open>ZeroDivisionError\<close> in Python when \<open>total_height\<close> is zero. The clamped \<open>t\<close> lies
  in \<open>[0, 1]\<close>, where Python's \<open>t**2.0\<close> and \<open>t**0.5\<close> are \<open>powr\<close>.
\<close>

definition lamp_shade_radius_at_height ::
  "real \<Rightarrow> real \<Rightarrow> real \<Rightarrow> real \<Rightarrow> string \<Rightarrow> error + real" where
  "lamp_shade_radius_at_height z b_radius t_radius t_height p_type =
     (if t_height = 0 then Inl ZeroDivisionError
      else
        let t = z / t_height;
            t = max 0 (min 1 t)
        in if p_type = ''linear'' then Inr (b_radius + t * (t_radius - b_radius))
           else if p_type = ''concave'' then
             (let t_modified = t powr 2 in Inr (b_radius + t_modified * (t_radius - b_radius)))
           else if p_type = ''convex'' then
             (let t_modified = t powr (1 / 2) in Inr (b_radius + t_modified * (t_radius - b_radius)))
           else if p_type = ''sinusoidal'' then
             (let amplitude = (5 / 100) * (b_radius + t_radius) / 2;
                  wave = amplitude * sin (4 * pi * t)
              in Inr (b_radius + t * (t_radius - b_radius) + wave))
           else Inr (b_radius + t * (t_radius - b_radius)))"

section \<open>Parameter validation (assignment3/config.py)\<close>

text \<open>
  \<open>LampShadeParams.validate\<close>. The checks run in the order of the source and the first one
  that fails raises. The body of \<open>validate_printability\<close> is left to the student in this
  repository, so the check is a parameter here: it takes the profile function, the total
  height, the layer height and the maximum angle, and returns the pair \<open>(valid, message)\<close>
  or raises.
\<close>

type_synonym printability_check =
  "(real \<Rightarrow> error + real) \<Rightarrow> real \<Rightarrow> real \<Rightarrow> real \<Rightarrow> error + bool \<times> message"

definition validate :: "printability_check \<Rightarrow> LampShadeParams \<Rightarrow> error + unit" where
  "validate validate_printability self =
     (if base_radius self \<le> 0 \<or> top_radius self \<le> 0 then
        Inl (ValueError (''Radii must be positive'', []))
      else if total_height self \<le> 0 then
        Inl (ValueError (''Height must be positive'', []))
      else if layer_height self \<le> 0 \<or> layer_height self > 3 / 10 then
        Inl (ValueError (''Layer height must be in range (0, 0.3]'', []))
      else if num_points self < 12 then
        Inl (ValueError (''Need at least 12 points for smooth circle'', []))
      else
        let max_radius = max (base_radius self) (top_radius self);
            cx = fst BED_CENTER;
            cy = snd BED_CENTER
        in if cx - max_radius < 0 \<or> cx + max_radius > fst BED_SIZE
              \<or> cy - max_radius < 0 \<or> cy + max_radius > snd BED_SIZE then
             Inl (ValueError (''Lamp Shade extends beyond bed boundaries'', []))
           else if total_height self > MAX_Z then
             Inl (ValueError (''Height exceeds printer maximum ({}mm)'', [MAX_Z]))
           else
             let min_radius = min (base_radius self) (top_radius self)
             in if min_radius < 10 then
                  Inl (ValueError
                    (''Minimum radius must be >=10mm for stability (got {:.1f}mm)'', [min_radius]))
                else
                  let profile_func = (\<lambda>z. lamp_shade_radius_at_height z (base_radius self)
                        (top_radius self) (total_height self) (profile_type self))
                  in case validate_printability profile_func (total_height self)
                            (layer_height self) MAX_OVERHANG_ANGLE of
                       Inl e \<Rightarrow> Inl e
                     | Inr (valid, msg) \<Rightarrow>
                         if \<not> valid then
                           Inl (ValueError (''Printability check failed: '' @ fst msg, snd msg))
                         else Inr ())"

text \<open>
  The invalid configurations, as the specification lists them: a radius that is not
  positive, a height that is not positive, a layer height outside \<open>(0, 0.3]\<close>, fewer than
  12 points, a shade wider than the bed around its centre \<open>(105, 105)\<close> on the \<open>250 \<times> 210\<close>
  bed, a height above the 220 mm limit, or a smaller radius under 10 mm.
\<close>

definition config_invalid :: "LampShadeParams \<Rightarrow> bool" where
  "config_invalid self =
     (base_radius self \<le> 0 \<or> top_radius self \<le> 0
      \<or> total_height self \<le> 0
      \<or> layer_height self \<le> 0 \<or> 3 / 10 < layer_height self
      \<or> num_points self < 12
      \<or> 105 - max (base_radius self) (top_radius self) < 0
      \<or> 250 < 105 + max (base_radius self) (top_radius self)
      \<or> 210 < 105 + max (base_radius self) (top_radius self)
      \<or> 220 < total_height self
      \<or> min (base_radius self) (top_radius self) < 10)"

section \<open>Closing a polygon (lec7/utility/helpers\_geom.py)\<close>

text \<open>
  A NumPy array of floats is its shape and its elements in row-major order; the elements
  are real numbers here. Row \<open>i\<close> of an \<open>(N, 2)\<close> array is the point at the positions
  \<open>2 i\<close> and \<open>2 i + 1\<close>.
\<close>

record ndarray =
  nd_shape :: "nat list"
  nd_data :: "real list"

definition wf_ndarray :: "ndarray \<Rightarrow> bool" where
  "wf_ndarray a = (length (nd_data a) = prod_list (nd_shape a))"

definition point_at :: "ndarray \<Rightarrow> nat \<Rightarrow> real \<times> real" where
  "point_at a i = (nd_data a ! (2 * i), nd_data a ! (2 * i + 1))"

definition linalg_norm :: "real \<times> real \<Rightarrow> real" where
  "linalg_norm v = sqrt ((fst v)\<^sup>2 + (snd v)\<^sup>2)"

definition vstack_point :: "ndarray \<Rightarrow> real \<times> real \<Rightarrow> ndarray" where
  "vstack_point a p =
     \<lparr>nd_shape = [nd_shape a ! 0 + 1, 2], nd_data = nd_data a @ [fst p, snd p]\<rparr>"

definition ensure_closed :: "ndarray \<Rightarrow> real \<Rightarrow> error + ndarray" where
  "ensure_closed poly_xy eps =
     (if length (nd_shape poly_xy) \<noteq> 2 then Inl (ValueError (''poly_xy must be (N,2)'', []))
      else if nd_shape poly_xy ! 1 \<noteq> 2 then Inl (ValueError (''poly_xy must be (N,2)'', []))
      else if nd_shape poly_xy ! 0 < 3 then Inl (ValueError (''Need >= 3 vertices'', []))
      else
        let first = point_at poly_xy 0;
            final = point_at poly_xy (nd_shape poly_xy ! 0 - 1)
        in if linalg_norm (fst first - fst final, snd first - snd final) \<le> eps then Inr poly_xy
           else Inr (vstack_point poly_xy first))"

text \<open>An \<open>(N, 2)\<close> array with at least three rows, and a polygon whose ends meet.\<close>

definition is_polygon_array :: "ndarray \<Rightarrow> bool" where
  "is_polygon_array a =
     (length (nd_shape a) = 2 \<and> nd_shape a ! 1 = 2 \<and> 3 \<le> nd_shape a ! 0)"

definition ends_meet :: "ndarray \<Rightarrow> real \<Rightarrow> bool" where
  "ends_meet a eps =
     (let first = point_at a 0;
          final = point_at a (nd_shape a ! 0 - 1)
      in linalg_norm (fst first - fst final, snd first - snd final) \<le> eps)"

section \<open>Layer stack (assignment3/part1\_geometry.py)\<close>

text \<open>A layer is the dictionary with the keys \<open>z\<close>, \<open>perimeter_xy\<close> and \<open>radius\<close>.\<close>

record 'n layer =
  layer_z :: 'n
  layer_perimeter_xy :: "('n \<times> 'n) list"
  layer_radius :: 'n

text \<open>
  The body of the loop of \<open>generate_lamp_shade_layers\<close>: the perimeter, then the radius,
  then the dictionary. Either call may raise.
\<close>

definition layer_body ::
  "('n \<Rightarrow> error + ('n \<times> 'n) list) \<Rightarrow> ('n \<Rightarrow> error + 'n) \<Rightarrow> 'n \<Rightarrow> error + 'n layer" where
  "layer_body gen rad z =
     (case gen z of
        Inl e \<Rightarrow> Inl e
      | Inr perimeter \<Rightarrow>
          (case rad z of
             Inl e \<Rightarrow> Inl e
           | Inr radius \<Rightarrow>
               Inr \<lparr>layer_z = z, layer_perimeter_xy = perimeter, layer_radius = radius\<rparr>))"

text \<open>
  The loop \<open>while z <= total_height: ...; z += layer_height\<close>. It is written once, over
  the addition and the comparison of the number type, so that the same loop runs on the
  real numbers and on IEEE 754 doubles. The loop does not end when the layer height is not
  positive: the result is \<open>None\<close> then.
\<close>

partial_function (option) layers_while ::
  "('n \<Rightarrow> 'n \<Rightarrow> 'n) \<Rightarrow> ('n \<Rightarrow> 'n \<Rightarrow> bool) \<Rightarrow> ('n \<Rightarrow> error + 'l) \<Rightarrow> 'n \<Rightarrow> 'n \<Rightarrow> 'n \<Rightarrow> 'l list
     \<Rightarrow> (error + 'l list) option" where
  "layers_while add leq body l_height t_height z layers =
     (if leq z t_height then
        (case body z of
           Inl e \<Rightarrow> Some (Inl e)
         | Inr layer \<Rightarrow>
             layers_while add leq body l_height t_height (add z l_height) (layers @ [layer]))
      else Some (Inr layers))"

text \<open>
  \<open>generate_lamp_shade_layers\<close> in exact arithmetic. \<open>generate_lamp_shade_layer\<close> is left to
  the student in this repository (its body raises \<open>NotImplementedError\<close>), so it is a
  parameter.
\<close>

definition generate_lamp_shade_layers ::
  "(real \<Rightarrow> LampShadeParams \<Rightarrow> error + (real \<times> real) list) \<Rightarrow> LampShadeParams
     \<Rightarrow> (error + real layer list) option" where
  "generate_lamp_shade_layers generate_lamp_shade_layer params =
     layers_while (+) (\<le>)
       (layer_body (\<lambda>z. generate_lamp_shade_layer z params)
          (\<lambda>z. lamp_shade_radius_at_height z (base_radius params) (top_radius params)
                 (total_height params) (profile_type params)))
       (layer_height params) (total_height params) (layer_height params) []"

subsection \<open>The same loop on doubles\<close>

text \<open>
  A finite double is the rational number it denotes. \<open>binary64_round\<close> rounds a rational
  to the nearest double, ties to even: 53 significant bits, and the fixed unit of the
  subnormal range below the smallest normal exponent \<open>-1022\<close>. Overflow to infinity is not
  modelled; the values below stay under 64.
  Python's \<open>x + y\<close> on floats is the rounded exact sum, and a decimal literal is the
  rounded decimal.
\<close>

definition pow2 :: "int \<Rightarrow> rat" where
  "pow2 e = (if 0 \<le> e then 2 ^ nat e else 1 / 2 ^ nat (- e))"

definition ilog2 :: "rat \<Rightarrow> int" where
  "ilog2 x = (let (a, b) = quotient_of x; d = bitlen a - bitlen b
              in if pow2 d \<le> x then d else d - 1)"

definition round_half_even :: "rat \<Rightarrow> int" where
  "round_half_even q =
     (let n = \<lfloor>q\<rfloor>; r = q - of_int n
      in if r < 1 / 2 then n else if 1 / 2 < r then n + 1 else if even n then n else n + 1)"

definition binary64_round :: "rat \<Rightarrow> rat" where
  "binary64_round x =
     (if x = 0 then 0
      else let e = max (ilog2 \<bar>x\<bar>) (- 1022); ulp = pow2 (e - 52)
           in sgn x * of_int (round_half_even (\<bar>x\<bar> / ulp)) * ulp)"

definition binary64_add :: "rat \<Rightarrow> rat \<Rightarrow> rat" where
  "binary64_add x y = binary64_round (x + y)"

definition generate_lamp_shade_layers_binary64 ::
  "(rat \<Rightarrow> error + (rat \<times> rat) list) \<Rightarrow> (rat \<Rightarrow> error + rat) \<Rightarrow> rat \<Rightarrow> rat
     \<Rightarrow> (error + rat layer list) option" where
  "generate_lamp_shade_layers_binary64 gen rad l_height t_height =
     layers_while binary64_add (\<le>) (layer_body gen rad) l_height t_height l_height []"

text \<open>
  The heights that the loop visits in its first \<open>n\<close> rounds, and the height it holds after
  them.
\<close>

primrec z_seq :: "('n \<Rightarrow> 'n \<Rightarrow> 'n) \<Rightarrow> 'n \<Rightarrow> 'n \<Rightarrow> nat \<Rightarrow> 'n list" where
  "z_seq add l_height z 0 = []"
| "z_seq add l_height z (Suc n) = z # z_seq add l_height (add z l_height) n"

primrec z_after :: "('n \<Rightarrow> 'n \<Rightarrow> 'n) \<Rightarrow> 'n \<Rightarrow> 'n \<Rightarrow> nat \<Rightarrow> 'n" where
  "z_after add l_height z 0 = z"
| "z_after add l_height z (Suc n) = z_after add l_height (add z l_height) n"

section \<open>Printability check (assignment3/part1\_geometry.py)\<close>

definition degrees :: "real \<Rightarrow> real" where
  "degrees x = x * 180 / pi"

definition overhang_message :: "real \<Rightarrow> real \<Rightarrow> real \<Rightarrow> message" where
  "overhang_message angle max_angle z =
     (''Overhang angle {:.1f} deg exceeds maximum {:.1f} deg at z={:.1f}mm'',
      [angle, max_angle, z])"

definition overhang_angle :: "real \<Rightarrow> real \<Rightarrow> real \<Rightarrow> real" where
  "overhang_angle dz r_prev r_cur = degrees (arctan (\<bar>r_cur - r_prev\<bar> / dz))"

text \<open>The radii at the sampled heights; the first sample that raises ends the sampling.\<close>

fun sample_profile :: "(real \<Rightarrow> error + real) \<Rightarrow> real list \<Rightarrow> error + (real \<times> real) list" where
  "sample_profile profile_func [] = Inr []"
| "sample_profile profile_func (z # zs) =
     (case profile_func z of
        Inl e \<Rightarrow> Inl e
      | Inr r \<Rightarrow>
          (case sample_profile profile_func zs of
             Inl e \<Rightarrow> Inl e
           | Inr rs \<Rightarrow> Inr ((z, r) # rs)))"

text \<open>The consecutive pairs, from the bottom; the first pair over the limit ends the check.\<close>

fun check_overhang :: "real \<Rightarrow> real \<Rightarrow> (real \<times> real) list \<Rightarrow> bool \<times> message" where
  "check_overhang dz max_angle (p # q # rest) =
     (let angle = overhang_angle dz (snd p) (snd q)
      in if angle > max_angle then (False, overhang_message angle max_angle (fst q))
         else check_overhang dz max_angle (q # rest))"
| "check_overhang dz max_angle rest = (True, (''Valid'', []))"

text \<open>
  Modelled from the spec: the body of \<open>validate_printability\<close> is missing (the source has its
  signature, its docstring and \<open>raise NotImplementedError\<close>). Section 4.2 of the
  specification: sample \<open>z\<close> at \<open>layerHeight, 2 * layerHeight, ...\<close> up to \<open>totalHeight\<close>; for
  each consecutive pair \<open>dr = r[i] - r[i-1]\<close>, \<open>dz = layerHeight\<close> and the angle is
  \<open>atan(|dr| / dz)\<close> in degrees; fail at the first pair whose angle exceeds the maximum,
  with a message naming the angle and the height of the upper sample of the pair,
  otherwise succeed with \<open>Valid\<close>.
\<close>

definition validate_printability :: printability_check where
  "validate_printability profile_func t_height l_height max_overhang_angle =
     (if l_height = 0 then Inl ZeroDivisionError
      else
        case sample_profile profile_func
               (map (\<lambda>i. real (Suc i) * l_height) [0..<nat \<lfloor>t_height / l_height\<rfloor>]) of
          Inl e \<Rightarrow> Inl e
        | Inr samples \<Rightarrow> Inr (check_overhang l_height max_overhang_angle samples))"

section \<open>Scanline and even-odd rule (assignment3/part2\_scanline.py)\<close>








section \<open>Extrusion and spiral toolpath (assignment3/part3\_gcode.py)\<close>







section \<open>Properties of the profile function\<close>

text \<open>
  Claim C8. For the linear profile and a positive total height, the radius is the base
  radius at \<open>z = 0\<close>, the top radius at \<open>z = total_height\<close> and the mean of the two at half
  the height. Over the reals the three values are exact, hence within any tolerance.
\<close>

theorem linear_profile_endpoints:
  assumes "0 < h"
  shows "lamp_shade_radius_at_height 0 b t h ''linear'' = Inr b
       \<and> lamp_shade_radius_at_height h b t h ''linear'' = Inr t
       \<and> lamp_shade_radius_at_height (h / 2) b t h ''linear'' = Inr ((b + t) / 2)"
proof -
  from assms have nz: "h \<noteq> 0" by simp
  have half: "max 0 (min 1 (h / 2 / h)) = (1 / 2 :: real)"
    using nz by simp
  have mid: "b + (1 / 2) * (t - b) = (b + t) / 2"
    by (simp add: field_simps)
  show ?thesis
    using nz half mid by (simp add: lamp_shade_radius_at_height_def Let_def)
qed

theorem linear_profile_endpoints_witness:
  "(0::real) < 50
   \<and> lamp_shade_radius_at_height 0 30 20 50 ''linear'' = Inr 30
   \<and> lamp_shade_radius_at_height 50 30 20 50 ''linear'' = Inr 20
   \<and> lamp_shade_radius_at_height 25 30 20 50 ''linear'' = Inr 25"
  using linear_profile_endpoints [of 50 30 20] by simp

text \<open>
  Claim C9. With a positive total height the function raises nothing and returns a radius
  for every height and every profile name; heights below the base or above the top are
  clamped, so they give the radius of the base and of the top; and a profile name other
  than the four known ones gives the result of the linear profile.
\<close>

theorem radius_total_and_fallback:
  assumes "0 < h"
  shows "(\<exists>r. lamp_shade_radius_at_height z b t h p = Inr r)
       \<and> (z \<le> 0 \<longrightarrow> lamp_shade_radius_at_height z b t h p = lamp_shade_radius_at_height 0 b t h p)
       \<and> (h \<le> z \<longrightarrow> lamp_shade_radius_at_height z b t h p = lamp_shade_radius_at_height h b t h p)
       \<and> (p \<notin> {''linear'', ''concave'', ''convex'', ''sinusoidal''} \<longrightarrow>
            lamp_shade_radius_at_height z b t h p = lamp_shade_radius_at_height z b t h ''linear'')"
proof -
  from assms have nz: "h \<noteq> 0" by simp
  have total: "\<exists>r. lamp_shade_radius_at_height z b t h p = Inr r"
    using nz by (simp add: lamp_shade_radius_at_height_def Let_def)
  have low: "lamp_shade_radius_at_height z b t h p = lamp_shade_radius_at_height 0 b t h p"
    if "z \<le> 0"
  proof -
    from that assms have "z / h \<le> 0" by (simp add: divide_le_0_iff)
    then have "max 0 (min 1 (z / h)) = 0" by simp
    then show ?thesis
      using nz by (simp add: lamp_shade_radius_at_height_def Let_def)
  qed
  have high: "lamp_shade_radius_at_height z b t h p = lamp_shade_radius_at_height h b t h p"
    if "h \<le> z"
  proof -
    from that assms have "1 \<le> z / h" by simp
    then have "max 0 (min 1 (z / h)) = 1" by simp
    then show ?thesis
      using nz by (simp add: lamp_shade_radius_at_height_def Let_def)
  qed
  have fallback: "lamp_shade_radius_at_height z b t h p = lamp_shade_radius_at_height z b t h ''linear''"
    if "p \<notin> {''linear'', ''concave'', ''convex'', ''sinusoidal''}"
    using that by (simp add: lamp_shade_radius_at_height_def Let_def)
  from total low high fallback show ?thesis by blast
qed

theorem radius_total_and_fallback_witness:
  "(0::real) < 50
   \<and> lamp_shade_radius_at_height (-3) 30 20 50 ''cubic'' = Inr 30
   \<and> lamp_shade_radius_at_height 60 30 20 50 ''cubic'' = Inr 20
   \<and> lamp_shade_radius_at_height 10 30 20 50 ''cubic''
       = lamp_shade_radius_at_height 10 30 20 50 ''linear''"
proof -
  have "lamp_shade_radius_at_height 10 30 20 50 ''cubic''
       = lamp_shade_radius_at_height 10 30 20 50 ''linear''"
    using radius_total_and_fallback [of 50 10 30 20 "''cubic''"] by simp
  then show ?thesis
    by (simp add: lamp_shade_radius_at_height_def Let_def)
qed

section \<open>Properties of \<open>ensure_closed\<close>\<close>

lemma polygon_array_shape:
  assumes "is_polygon_array a"
  shows "nd_shape a = [nd_shape a ! 0, 2]"
proof -
  from assms have len: "length (nd_shape a) = 2" and snd: "nd_shape a ! 1 = 2"
    by (simp_all add: is_polygon_array_def)
  from len obtain u v where uv: "nd_shape a = [u, v]"
    by (cases "nd_shape a"; cases "tl (nd_shape a)") auto
  with snd show ?thesis by simp
qed

lemma polygon_array_length:
  assumes "is_polygon_array a" "wf_ndarray a"
  shows "length (nd_data a) = 2 * (nd_shape a ! 0)"
proof -
  have "prod_list (nd_shape a) = prod_list [nd_shape a ! 0, 2]"
    using polygon_array_shape [OF assms(1)] by simp
  with assms(2) show ?thesis by (simp add: wf_ndarray_def)
qed

lemma ensure_closed_polygon:
  assumes "is_polygon_array p"
  shows "ensure_closed p eps = Inr (if ends_meet p eps then p else vstack_point p (point_at p 0))"
  using assms by (simp add: ensure_closed_def is_polygon_array_def ends_meet_def Let_def)

lemma ensure_closed_raises:
  assumes "\<not> is_polygon_array p"
  shows "\<exists>m. ensure_closed p eps = Inl (ValueError m)"
  using assms by (auto simp: ensure_closed_def is_polygon_array_def Let_def)

lemma vstack_closes:
  assumes poly: "is_polygon_array p" and wf: "wf_ndarray p" and eps: "0 \<le> eps"
  shows "is_polygon_array (vstack_point p (point_at p 0))
       \<and> wf_ndarray (vstack_point p (point_at p 0))
       \<and> ends_meet (vstack_point p (point_at p 0)) eps"
proof -
  let ?n = "nd_shape p ! 0"
  let ?q = "vstack_point p (point_at p 0)"
  have len: "length (nd_data p) = 2 * ?n"
    using polygon_array_length [OF poly wf] .
  from poly have n3: "3 \<le> ?n" by (simp add: is_polygon_array_def)
  have shape: "is_polygon_array ?q"
    using n3 by (simp add: is_polygon_array_def vstack_point_def)
  have wfq: "wf_ndarray ?q"
    using len by (simp add: wf_ndarray_def vstack_point_def)
  have first: "point_at ?q 0 = point_at p 0"
    using len n3 by (simp add: point_at_def vstack_point_def nth_append)
  have final: "point_at ?q (nd_shape ?q ! 0 - 1) = point_at p 0"
    using len by (simp add: point_at_def vstack_point_def nth_append)
  have "ends_meet ?q eps"
    using eps first final by (simp add: ends_meet_def Let_def linalg_norm_def)
  with shape wfq show ?thesis by simp
qed

text \<open>
  Claim C10. For a tolerance that is not negative (the default is \<open>1e-9\<close>) and an \<open>(N, 2)\<close>
  array with at least three rows, \<open>ensure_closed\<close> returns a polygon whose last vertex is
  within the tolerance of its first one, and closing that polygon again returns it as it
  is; a polygon whose ends meet already is returned unchanged; and \<open>ValueError\<close> is raised
  on exactly the arrays that are not \<open>(N, 2)\<close> with at least three rows.
\<close>

theorem ensure_closed_idempotent:
  assumes "wf_ndarray p" and "0 \<le> eps"
  shows "(is_polygon_array p \<longrightarrow>
            (\<exists>q. ensure_closed p eps = Inr q \<and> is_polygon_array q \<and> wf_ndarray q
                 \<and> ends_meet q eps \<and> ensure_closed q eps = Inr q))
       \<and> (is_polygon_array p \<and> ends_meet p eps \<longrightarrow> ensure_closed p eps = Inr p)
       \<and> ((\<exists>m. ensure_closed p eps = Inl (ValueError m)) \<longleftrightarrow> \<not> is_polygon_array p)"
proof (intro conjI impI)
  assume poly: "is_polygon_array p"
  show "\<exists>q. ensure_closed p eps = Inr q \<and> is_polygon_array q \<and> wf_ndarray q
           \<and> ends_meet q eps \<and> ensure_closed q eps = Inr q"
  proof (cases "ends_meet p eps")
    case True
    then have "ensure_closed p eps = Inr p"
      using ensure_closed_polygon [OF poly] by simp
    with True poly assms(1) show ?thesis by simp
  next
    case False
    let ?q = "vstack_point p (point_at p 0)"
    have res: "ensure_closed p eps = Inr ?q"
      using False ensure_closed_polygon [OF poly] by simp
    have q: "is_polygon_array ?q" "wf_ndarray ?q" "ends_meet ?q eps"
      using vstack_closes [OF poly assms] by simp_all
    have "ensure_closed ?q eps = Inr ?q"
      using ensure_closed_polygon [OF q(1)] q(3) by simp
    with res q show ?thesis by simp
  qed
next
  assume "is_polygon_array p \<and> ends_meet p eps"
  then show "ensure_closed p eps = Inr p"
    using ensure_closed_polygon [of p eps] by simp
next
  show "(\<exists>m. ensure_closed p eps = Inl (ValueError m)) \<longleftrightarrow> \<not> is_polygon_array p"
    using ensure_closed_polygon [of p eps] ensure_closed_raises [of p eps] by auto
qed

theorem ensure_closed_idempotent_witness:
  "wf_ndarray \<lparr>nd_shape = [3, 2], nd_data = [0, 0, 1, 0, 0, 1]\<rparr>
   \<and> (0::real) \<le> 1 / 10 ^ 9
   \<and> is_polygon_array \<lparr>nd_shape = [3, 2], nd_data = [0, 0, 1, 0, 0, 1]\<rparr>
   \<and> ensure_closed \<lparr>nd_shape = [3, 2], nd_data = [0, 0, 1, 0, 0, 1]\<rparr> (1 / 10 ^ 9)
       = Inr \<lparr>nd_shape = [4, 2], nd_data = [0, 0, 1, 0, 0, 1, 0, 0]\<rparr>
   \<and> ensure_closed \<lparr>nd_shape = [4, 2], nd_data = [0, 0, 1, 0, 0, 1, 0, 0]\<rparr> (1 / 10 ^ 9)
       = Inr \<lparr>nd_shape = [4, 2], nd_data = [0, 0, 1, 0, 0, 1, 0, 0]\<rparr>
   \<and> (\<exists>m. ensure_closed \<lparr>nd_shape = [2, 2], nd_data = [0, 0, 1, 0]\<rparr> (1 / 10 ^ 9)
            = Inl (ValueError m))"
proof -
  let ?p = "\<lparr>nd_shape = [3, 2], nd_data = [0, 0, 1, 0, 0, 1 :: real]\<rparr>"
  let ?r = "\<lparr>nd_shape = [2, 2], nd_data = [0, 0, 1, 0 :: real]\<rparr>"
  have wf: "wf_ndarray ?p" and wfr: "wf_ndarray ?r"
    by (simp_all add: wf_ndarray_def)
  have eps: "(0::real) \<le> 1 / 10 ^ 9" by simp
  have poly: "is_polygon_array ?p" and npoly: "\<not> is_polygon_array ?r"
    by (simp_all add: is_polygon_array_def)
  have res: "ensure_closed ?p (1 / 10 ^ 9)
       = Inr \<lparr>nd_shape = [4, 2], nd_data = [0, 0, 1, 0, 0, 1, 0, 0]\<rparr>"
    by (simp add: ensure_closed_def point_at_def linalg_norm_def vstack_point_def Let_def)
  have again: "ensure_closed \<lparr>nd_shape = [4, 2], nd_data = [0, 0, 1, 0, 0, 1, 0, 0]\<rparr> (1 / 10 ^ 9)
       = Inr \<lparr>nd_shape = [4, 2], nd_data = [0, 0, 1, 0, 0, 1, 0, 0]\<rparr>"
    using ensure_closed_idempotent [OF wf eps] poly res by auto
  have raises: "\<exists>m. ensure_closed ?r (1 / 10 ^ 9) = Inl (ValueError m)"
    using ensure_closed_idempotent [OF wfr eps] npoly by blast
  from wf eps poly res again raises show ?thesis by blast
qed

section \<open>Properties of the parameter validation\<close>

text \<open>The chain of checks of \<open>validate\<close>, with each condition named.\<close>

lemma validate_chain:
  fixes self :: LampShadeParams
  defines "c1 \<equiv> base_radius self \<le> 0 \<or> top_radius self \<le> 0"
    and "c2 \<equiv> total_height self \<le> 0"
    and "c3 \<equiv> layer_height self \<le> 0 \<or> 3 / 10 < layer_height self"
    and "c4 \<equiv> num_points self < 12"
    and "c5 \<equiv> 105 - max (base_radius self) (top_radius self) < 0
              \<or> 250 < 105 + max (base_radius self) (top_radius self)
              \<or> 210 < 105 + max (base_radius self) (top_radius self)"
    and "c6 \<equiv> 220 < total_height self"
    and "c7 \<equiv> min (base_radius self) (top_radius self) < 10"
  shows "validate vp self =
     (if c1 then Inl (ValueError (''Radii must be positive'', []))
      else if c2 then Inl (ValueError (''Height must be positive'', []))
      else if c3 then Inl (ValueError (''Layer height must be in range (0, 0.3]'', []))
      else if c4 then Inl (ValueError (''Need at least 12 points for smooth circle'', []))
      else if c5 then Inl (ValueError (''Lamp Shade extends beyond bed boundaries'', []))
      else if c6 then Inl (ValueError (''Height exceeds printer maximum ({}mm)'', [220]))
      else if c7 then Inl (ValueError
             (''Minimum radius must be >=10mm for stability (got {:.1f}mm)'',
              [min (base_radius self) (top_radius self)]))
      else case vp (\<lambda>z. lamp_shade_radius_at_height z (base_radius self) (top_radius self)
                         (total_height self) (profile_type self))
                  (total_height self) (layer_height self) 45 of
             Inl e \<Rightarrow> Inl e
           | Inr (valid, msg) \<Rightarrow>
               if \<not> valid then
                 Inl (ValueError (''Printability check failed: '' @ fst msg, snd msg))
               else Inr ())"
    and "config_invalid self \<longleftrightarrow> c1 \<or> c2 \<or> c3 \<or> c4 \<or> c5 \<or> c6 \<or> c7"
proof -
  have bed: "(fst BED_CENTER - max (base_radius self) (top_radius self) < 0
        \<or> fst BED_CENTER + max (base_radius self) (top_radius self) > fst BED_SIZE
        \<or> snd BED_CENTER - max (base_radius self) (top_radius self) < 0
        \<or> snd BED_CENTER + max (base_radius self) (top_radius self) > snd BED_SIZE) = c5"
    unfolding c5_def BED_CENTER_def BED_SIZE_def by auto
  show "validate vp self =
     (if c1 then Inl (ValueError (''Radii must be positive'', []))
      else if c2 then Inl (ValueError (''Height must be positive'', []))
      else if c3 then Inl (ValueError (''Layer height must be in range (0, 0.3]'', []))
      else if c4 then Inl (ValueError (''Need at least 12 points for smooth circle'', []))
      else if c5 then Inl (ValueError (''Lamp Shade extends beyond bed boundaries'', []))
      else if c6 then Inl (ValueError (''Height exceeds printer maximum ({}mm)'', [220]))
      else if c7 then Inl (ValueError
             (''Minimum radius must be >=10mm for stability (got {:.1f}mm)'',
              [min (base_radius self) (top_radius self)]))
      else case vp (\<lambda>z. lamp_shade_radius_at_height z (base_radius self) (top_radius self)
                         (total_height self) (profile_type self))
                  (total_height self) (layer_height self) 45 of
             Inl e \<Rightarrow> Inl e
           | Inr (valid, msg) \<Rightarrow>
               if \<not> valid then
                 Inl (ValueError (''Printability check failed: '' @ fst msg, snd msg))
               else Inr ())"
    unfolding validate_def Let_def bed
    unfolding c1_def c2_def c3_def c4_def c6_def c7_def MAX_Z_def MAX_OVERHANG_ANGLE_def
    by (rule refl)
  show "config_invalid self \<longleftrightarrow> c1 \<or> c2 \<or> c3 \<or> c4 \<or> c5 \<or> c6 \<or> c7"
    unfolding config_invalid_def c1_def c2_def c3_def c4_def c5_def c6_def c7_def
    by blast
qed

lemma validate_invalid:
  assumes "config_invalid self"
  shows "\<exists>m. \<forall>vp. validate vp self = Inl (ValueError m)"
proof -
  note chain = validate_chain(1) [of _ self]
  from assms validate_chain(2) [of self]
  consider (c1) "base_radius self \<le> 0 \<or> top_radius self \<le> 0"
    | (c2) "total_height self \<le> 0"
    | (c3) "layer_height self \<le> 0 \<or> 3 / 10 < layer_height self"
    | (c4) "num_points self < 12"
    | (c5) "105 - max (base_radius self) (top_radius self) < 0
              \<or> 250 < 105 + max (base_radius self) (top_radius self)
              \<or> 210 < 105 + max (base_radius self) (top_radius self)"
    | (c6) "220 < total_height self"
    | (c7) "min (base_radius self) (top_radius self) < 10"
    by blast
  then show ?thesis
  proof cases
    case c1
    then show ?thesis by (subst chain) (simp only: if_True, blast)
  next
    case c2
    then show ?thesis by (subst chain) (simp only: if_True if_cancel split: if_splits, blast)
  next
    case c3
    then show ?thesis by (subst chain) (simp only: if_True if_cancel split: if_splits, blast)
  next
    case c4
    then show ?thesis by (subst chain) (simp only: if_True if_cancel split: if_splits, blast)
  next
    case c5
    then show ?thesis by (subst chain) (simp only: if_True if_cancel split: if_splits, blast)
  next
    case c6
    then show ?thesis by (subst chain) (simp only: if_True if_cancel split: if_splits, blast)
  next
    case c7
    then show ?thesis by (subst chain) (simp only: if_True if_cancel split: if_splits, blast)
  qed
qed

lemma validate_valid:
  assumes "\<not> config_invalid self"
  shows "validate vp self =
     (case vp (\<lambda>z. lamp_shade_radius_at_height z (base_radius self) (top_radius self)
                  (total_height self) (profile_type self))
             (total_height self) (layer_height self) 45 of
        Inl e \<Rightarrow> Inl e
      | Inr (valid, msg) \<Rightarrow>
          if valid then Inr ()
          else Inl (ValueError (''Printability check failed: '' @ fst msg, snd msg)))"
proof -
  from assms validate_chain(2) [of self]
  have no: "\<not> (base_radius self \<le> 0 \<or> top_radius self \<le> 0)"
      "\<not> total_height self \<le> 0"
      "\<not> (layer_height self \<le> 0 \<or> 3 / 10 < layer_height self)"
      "\<not> num_points self < 12"
      "\<not> (105 - max (base_radius self) (top_radius self) < 0
              \<or> 250 < 105 + max (base_radius self) (top_radius self)
              \<or> 210 < 105 + max (base_radius self) (top_radius self))"
      "\<not> 220 < total_height self"
      "\<not> min (base_radius self) (top_radius self) < 10"
    by blast+
  show ?thesis
    by (subst validate_chain(1) [of vp self]) (simp only: no if_False split: sum.splits prod.splits, simp)
qed

text \<open>
  Claim C3. An invalid configuration makes \<open>validate\<close> raise a \<open>ValueError\<close> that is fixed
  before the printability check is consulted and whatever that check would answer: no
  profile is sampled and no geometry is generated. A configuration that violates none of
  the constraints returns normally when the printability check passes, and raises the
  \<open>ValueError\<close> of the check when it fails.
\<close>

theorem validate_raises_on_invalid_configuration:
  "(config_invalid self \<longrightarrow> (\<exists>m. \<forall>vp. validate vp self = Inl (ValueError m)))
   \<and> (\<not> config_invalid self \<longrightarrow>
        vp (\<lambda>z. lamp_shade_radius_at_height z (base_radius self) (top_radius self)
                   (total_height self) (profile_type self))
           (total_height self) (layer_height self) 45 = Inr (True, msg) \<longrightarrow>
        validate vp self = Inr ())
   \<and> (\<not> config_invalid self \<longrightarrow>
        vp (\<lambda>z. lamp_shade_radius_at_height z (base_radius self) (top_radius self)
                   (total_height self) (profile_type self))
           (total_height self) (layer_height self) 45 = Inr (False, msg) \<longrightarrow>
        validate vp self = Inl (ValueError (''Printability check failed: '' @ fst msg, snd msg)))"
  using validate_invalid [of self] validate_valid [of self vp] by simp

theorem validate_raises_on_invalid_configuration_witness:
  "config_invalid (default_params\<lparr>num_points := 8\<rparr>)
   \<and> (\<forall>vp. validate vp (default_params\<lparr>num_points := 8\<rparr>)
          = Inl (ValueError (''Need at least 12 points for smooth circle'', [])))
   \<and> \<not> config_invalid default_params
   \<and> validate (\<lambda>f h l a. Inr (True, (''Valid'', []))) default_params = Inr ()
   \<and> validate (\<lambda>f h l a. Inr (False, (''steep'', []))) default_params
       = Inl (ValueError (''Printability check failed: steep'', []))"
proof -
  have bad: "config_invalid (default_params\<lparr>num_points := 8\<rparr>)"
    by (simp add: config_invalid_def default_params_def)
  have good: "\<not> config_invalid default_params"
    by (simp add: config_invalid_def default_params_def)
  have "\<exists>m. \<forall>vp. validate vp (default_params\<lparr>num_points := 8\<rparr>) = Inl (ValueError m)"
    using validate_raises_on_invalid_configuration [of "default_params\<lparr>num_points := 8\<rparr>"] bad
    by blast
  then obtain m where m: "\<forall>vp. validate vp (default_params\<lparr>num_points := 8\<rparr>) = Inl (ValueError m)"
    by blast
  have "validate (\<lambda>f h l a. Inl ZeroDivisionError) (default_params\<lparr>num_points := 8\<rparr>)
      = Inl (ValueError (''Need at least 12 points for smooth circle'', []))"
    by (simp add: validate_def default_params_def)
  with m have "m = (''Need at least 12 points for smooth circle'', [])" by simp
  with m have fixed: "\<forall>vp. validate vp (default_params\<lparr>num_points := 8\<rparr>)
      = Inl (ValueError (''Need at least 12 points for smooth circle'', []))"
    by simp
  have pass: "validate (\<lambda>f h l a. Inr (True, (''Valid'', []))) default_params = Inr ()"
    using validate_raises_on_invalid_configuration
      [of default_params "\<lambda>f h l a. Inr (True, (''Valid'', []))" "(''Valid'', [])"] good
    by simp
  have fail: "validate (\<lambda>f h l a. Inr (False, (''steep'', []))) default_params
      = Inl (ValueError (''Printability check failed: steep'', []))"
    using validate_raises_on_invalid_configuration
      [of default_params "\<lambda>f h l a. Inr (False, (''steep'', []))" "(''steep'', [])"] good
    by simp
  from bad fixed good pass fail show ?thesis by blast
qed

section \<open>Properties of the layer loop\<close>

lemma layers_while_unroll:
  assumes "\<And>v. v \<in> set (z_seq add lh z n) \<Longrightarrow> leq v th \<and> body v = Inr (mk v)"
    and "\<not> leq (z_after add lh z n) th"
  shows "layers_while add leq body lh th z acc = Some (Inr (acc @ map mk (z_seq add lh z n)))"
  using assms
proof (induction n arbitrary: z acc)
  case 0
  then have "\<not> leq z th" by simp
  then show ?case
    by (subst layers_while.simps) simp
next
  case (Suc n)
  have here: "leq z th" "body z = Inr (mk z)"
    using Suc.prems(1) [of z] by simp_all
  have rest: "layers_while add leq body lh th (add z lh) (acc @ [mk z])
      = Some (Inr ((acc @ [mk z]) @ map mk (z_seq add lh (add z lh) n)))"
  proof (rule Suc.IH)
    fix v assume "v \<in> set (z_seq add lh (add z lh) n)"
    then show "leq v th \<and> body v = Inr (mk v)"
      using Suc.prems(1) [of v] by simp
  next
    show "\<not> leq (z_after add lh (add z lh) n) th"
      using Suc.prems(2) by simp
  qed
  show ?case
    by (subst layers_while.simps) (simp add: here rest)
qed

lemma length_z_seq: "length (z_seq add lh z n) = n"
  by (induction n arbitrary: z) simp_all

lemma layer_body_total:
  assumes "gen v = Inr (g v)" and "rad v = Inr (r v)"
  shows "layer_body gen rad v
       = Inr \<lparr>layer_z = v, layer_perimeter_xy = g v, layer_radius = r v\<rparr>"
  using assms by (simp add: layer_body_def)

text \<open>In exact arithmetic the loop visits the multiples of the layer height.\<close>

lemma z_seq_exact: "z_seq (+) lh z n = map (\<lambda>k. z + real k * lh) [0..<n]"
proof (induction n arbitrary: z)
  case 0
  show ?case by simp
next
  case (Suc n)
  have "map (\<lambda>k. z + real k * lh) [0..<Suc n]
      = z # map (\<lambda>k. z + real (Suc k) * lh) [0..<n]"
    by (simp only: upt_conv_Cons [of 0 "Suc n"] map_Suc_upt [symmetric]) (simp add: comp_def)
  also have "map (\<lambda>k. z + real (Suc k) * lh) [0..<n] = map (\<lambda>k. (z + lh) + real k * lh) [0..<n]"
    by (simp add: algebra_simps)
  finally show ?case
    using Suc.IH [of "z + lh"] by simp
qed

lemma z_after_exact: "z_after (+) lh z n = z + real n * lh"
  by (induction n arbitrary: z) (simp_all add: algebra_simps)

lemma layers_exact_count:
  assumes lh: "0 < layer_height p" and th: "0 < total_height p"
    and gen: "\<And>z. gen z p = Inr (g z)"
  shows "\<exists>ls. generate_lamp_shade_layers gen p = Some (Inr ls)
            \<and> length ls = nat \<lfloor>total_height p / layer_height p\<rfloor>
            \<and> map layer_z ls
                = map (\<lambda>k. real (Suc k) * layer_height p) [0..<nat \<lfloor>total_height p / layer_height p\<rfloor>]"
proof -
  let ?lh = "layer_height p" and ?th = "total_height p"
  let ?n = "nat \<lfloor>?th / ?lh\<rfloor>"
  let ?rad = "\<lambda>z. lamp_shade_radius_at_height z (base_radius p) (top_radius p) ?th (profile_type p)"
  let ?mk = "\<lambda>v. \<lparr>layer_z = v, layer_perimeter_xy = g v, layer_radius = projr (?rad v)\<rparr>"
  have rad: "?rad v = Inr (projr (?rad v))" for v
    using th by (simp add: lamp_shade_radius_at_height_def Let_def)
  have body: "layer_body (\<lambda>z. gen z p) ?rad v = Inr (?mk v)" for v
    using layer_body_total [of "\<lambda>z. gen z p" v g ?rad "\<lambda>v. projr (?rad v)"] gen rad by simp
  have q: "0 \<le> ?th / ?lh" using lh th by simp
  have fl: "real ?n = of_int \<lfloor>?th / ?lh\<rfloor>" using q by simp
  have below: "v \<le> ?th" if "v \<in> set (z_seq (+) ?lh ?lh ?n)" for v
  proof -
    from that obtain k where k: "k < ?n" "v = ?lh + real k * ?lh"
      by (auto simp: z_seq_exact)
    from k(1) have "real (Suc k) \<le> real ?n" by simp
    also have "\<dots> \<le> ?th / ?lh" using fl by simp
    finally have "real (Suc k) * ?lh \<le> ?th"
      using lh by (simp add: pos_le_divide_eq)
    with k(2) show ?thesis by (simp add: algebra_simps)
  qed
  have above: "\<not> z_after (+) ?lh ?lh ?n \<le> ?th"
  proof -
    have "?th / ?lh < real ?n + 1" using fl by linarith
    then have "?th < (real ?n + 1) * ?lh"
      using lh by (simp add: pos_divide_less_eq)
    then show ?thesis by (simp add: z_after_exact algebra_simps)
  qed
  have run: "generate_lamp_shade_layers gen p = Some (Inr (map ?mk (z_seq (+) ?lh ?lh ?n)))"
    unfolding generate_lamp_shade_layers_def
    using layers_while_unroll [of "(+)" ?lh ?lh ?n "(\<le>)" ?th "layer_body (\<lambda>z. gen z p) ?rad" ?mk "[]"]
      below body above by simp
  have zs: "map layer_z (map ?mk (z_seq (+) ?lh ?lh ?n)) = map (\<lambda>k. real (Suc k) * ?lh) [0..<?n]"
    by (simp add: z_seq_exact comp_def algebra_simps)
  from run zs show ?thesis
    by (simp add: length_z_seq)
qed

text \<open>
  On doubles, with the layer height \<open>0.12\<close> and the total height \<open>1.2\<close>. The two literals
  as Python reads them, the sums that the loop computes one after the other, and the
  heights that it visits.
\<close>

lemma binary64_literals:
  "binary64_round (12 / 100) = 1080863910568919 / 9007199254740992"
  "binary64_round (12 / 10) = 5404319552844595 / 4503599627370496"
  by code_simp+

lemma binary64_steps:
  "binary64_add (1080863910568919 / 9007199254740992) (1080863910568919 / 9007199254740992) = 1080863910568919 / 4503599627370496"
  "binary64_add (1080863910568919 / 4503599627370496) (1080863910568919 / 9007199254740992) = 3242591731706757 / 9007199254740992"
  "binary64_add (3242591731706757 / 9007199254740992) (1080863910568919 / 9007199254740992) = 1080863910568919 / 2251799813685248"
  "binary64_add (1080863910568919 / 2251799813685248) (1080863910568919 / 9007199254740992) = 5404319552844595 / 9007199254740992"
  "binary64_add (5404319552844595 / 9007199254740992) (1080863910568919 / 9007199254740992) = 3242591731706757 / 4503599627370496"
  "binary64_add (3242591731706757 / 4503599627370496) (1080863910568919 / 9007199254740992) = 7566047373982433 / 9007199254740992"
  "binary64_add (7566047373982433 / 9007199254740992) (1080863910568919 / 9007199254740992) = 1080863910568919 / 1125899906842624"
  "binary64_add (1080863910568919 / 1125899906842624) (1080863910568919 / 9007199254740992) = 607985949695017 / 562949953421312"
  "binary64_add (607985949695017 / 562949953421312) (1080863910568919 / 9007199254740992) = 1351079888211149 / 1125899906842624"
  by code_simp+

lemma binary64_run:
  "z_seq binary64_add (1080863910568919 / 9007199254740992) (1080863910568919 / 9007199254740992) 9 =
       [1080863910568919 / 9007199254740992,
        1080863910568919 / 4503599627370496,
        3242591731706757 / 9007199254740992,
        1080863910568919 / 2251799813685248,
        5404319552844595 / 9007199254740992,
        3242591731706757 / 4503599627370496,
        7566047373982433 / 9007199254740992,
        1080863910568919 / 1125899906842624,
        607985949695017 / 562949953421312]"
  "z_after binary64_add (1080863910568919 / 9007199254740992) (1080863910568919 / 9007199254740992) 9 = 1351079888211149 / 1125899906842624"
  by (simp_all only: eval_nat_numeral BitM.simps One_nat_def z_seq.simps z_after.simps
        binary64_steps)

lemma binary64_run_bounds:
  "\<forall>v \<in> set [1080863910568919 / 9007199254740992,
        1080863910568919 / 4503599627370496,
        3242591731706757 / 9007199254740992,
        1080863910568919 / 2251799813685248,
        5404319552844595 / 9007199254740992,
        3242591731706757 / 4503599627370496,
        7566047373982433 / 9007199254740992,
        1080863910568919 / 1125899906842624,
        607985949695017 / 562949953421312].
     v \<le> (5404319552844595 / 4503599627370496 :: rat)"
  "\<not> (1351079888211149 / 1125899906842624 :: rat) \<le> 5404319552844595 / 4503599627370496"
  "(607985949695017 / 562949953421312 :: rat) < 5404319552844595 / 4503599627370496 - (1080863910568919 / 9007199254740992) / 2"
  "(5404319552844595 / 4503599627370496 :: rat) = 10 * (1080863910568919 / 9007199254740992)"
  by simp_all

text \<open>
  Claim C2. The claim fails on doubles. With the layer height \<open>0.12\<close> and the total height
  \<open>1.2\<close>, both as Python reads them, the total height is exactly ten times the layer height,
  so the quotient and its floor are 10. The loop, which adds the layer height to \<open>z\<close> again
  and again, holds a \<open>z\<close> above the total height after nine rounds and stops: it returns
  nine layers, the last one near \<open>1.08\<close>, whenever the layer generator and the radius
  function do not raise. The layer at the total height is skipped.
\<close>

theorem layers_binary64_skip_final_layer:
  assumes "\<And>z. gen z = Inr (g z)" and "\<And>z. rad z = Inr (r z)"
  shows "\<exists>ls. generate_lamp_shade_layers_binary64 gen rad
                 (binary64_round (12 / 100)) (binary64_round (12 / 10)) = Some (Inr ls)
            \<and> length ls = 9
            \<and> layer_z (last ls) < binary64_round (12 / 10) - binary64_round (12 / 100) / 2
            \<and> binary64_round (12 / 10) / binary64_round (12 / 100) = 10"
proof -
  let ?lh = "1080863910568919 / 9007199254740992 :: rat"
  let ?th = "5404319552844595 / 4503599627370496 :: rat"
  let ?zs = "z_seq binary64_add ?lh ?lh 9"
  let ?mk = "\<lambda>v. \<lparr>layer_z = v, layer_perimeter_xy = g v, layer_radius = r v\<rparr>"
  have body: "layer_body gen rad v = Inr (?mk v)" for v
    using layer_body_total [of gen v g rad r] assms by simp
  have below: "v \<le> ?th" if "v \<in> set ?zs" for v
    using that binary64_run_bounds(1) unfolding binary64_run(1) by blast
  have above: "\<not> z_after binary64_add ?lh ?lh 9 \<le> ?th"
    unfolding binary64_run(2) by (rule binary64_run_bounds(2))
  have run: "generate_lamp_shade_layers_binary64 gen rad ?lh ?th = Some (Inr (map ?mk ?zs))"
    unfolding generate_lamp_shade_layers_binary64_def
    using layers_while_unroll [of binary64_add ?lh ?lh 9 "(\<le>)" ?th "layer_body gen rad" ?mk "[]"]
      below body above by simp
  have len: "length (map ?mk ?zs) = 9"
    by (simp only: length_map length_z_seq)
  have "last (map ?mk ?zs) = ?mk (607985949695017 / 562949953421312)"
    unfolding binary64_run(1) by simp
  then have last: "layer_z (last (map ?mk ?zs)) = 607985949695017 / 562949953421312"
    by simp
  have gap: "layer_z (last (map ?mk ?zs)) < ?th - ?lh / 2"
    unfolding last by (rule binary64_run_bounds(3))
  have quot: "?th / ?lh = 10"
    by simp
  show ?thesis
    unfolding binary64_literals using run len gap quot by blast
qed

theorem layers_binary64_skip_final_layer_witness:
  "\<exists>ls. generate_lamp_shade_layers_binary64 (\<lambda>z. Inr []) (\<lambda>z. Inr 20)
            (binary64_round (12 / 100)) (binary64_round (12 / 10)) = Some (Inr ls)
       \<and> length ls = 9
       \<and> layer_z (last ls) < binary64_round (12 / 10) - binary64_round (12 / 100) / 2
       \<and> binary64_round (12 / 10) / binary64_round (12 / 100) = 10"
  by (rule layers_binary64_skip_final_layer
        [of "\<lambda>z. Inr []" "\<lambda>z. []" "\<lambda>z. Inr 20" "\<lambda>z. 20", OF refl refl])

section \<open>Properties of the printability check\<close>










section \<open>Properties of the extrusion formulas\<close>


lemma filament_area_positive:
  assumes "0 < d"
  shows "0 < pi * (d / 2)\<^sup>2"
  using assms by simp





section \<open>Properties of the scanline and of the even-odd rule\<close>







section \<open>Properties of the spiral toolpath\<close>










end
